theory Spec2Isabelle
  imports Main
begin

section \<open>The output sink (response\_writer.go)\<close>

text \<open>
  The wrapped \<^verbatim>\<open>http.ResponseWriter\<close> belongs to the transport. It is represented by the
  list of calls that the wrapper has forwarded to it, oldest first. Status codes are Go
  \<^verbatim>\<open>int\<close>s that are only stored and compared, never computed with.
\<close>

datatype transport_call = WriteHeaderCall int | WriteCall string

record ResponseWriter =
  embedded :: "transport_call list"
  written :: bool
  status :: int

definition NewResponseWriter :: "transport_call list \<Rightarrow> ResponseWriter" where
  "NewResponseWriter w = \<lparr>embedded = w, written = False, status = 0\<rparr>"

definition WriteHeader :: "ResponseWriter \<Rightarrow> int \<Rightarrow> ResponseWriter" where
  "WriteHeader w code =
     w\<lparr>status := code, written := True, embedded := embedded w @ [WriteHeaderCall code]\<rparr>"

text \<open>
  \<^verbatim>\<open>Write\<close> hands back the byte count and error of the transport unchanged; neither is
  stored, so the model keeps the effect on the writer only.
\<close>

definition Write :: "ResponseWriter \<Rightarrow> string \<Rightarrow> ResponseWriter" where
  "Write w b = w\<lparr>written := True, embedded := embedded w @ [WriteCall b]\<rparr>"

definition Written :: "ResponseWriter \<Rightarrow> bool" where
  "Written w = written w"

definition Status :: "ResponseWriter \<Rightarrow> int" where
  "Status w = status w"

text \<open>A call on the sink, so that sequences of calls can be quantified over.\<close>

datatype sink_op = OpWriteHeader int | OpWrite string

fun sink_step :: "ResponseWriter \<Rightarrow> sink_op \<Rightarrow> ResponseWriter" where
  "sink_step w (OpWriteHeader code) = WriteHeader w code"
| "sink_step w (OpWrite b) = Write w b"

definition sink_run :: "ResponseWriter \<Rightarrow> sink_op list \<Rightarrow> ResponseWriter" where
  "sink_run w ops = foldl sink_step w ops"

text \<open>
  Modelled from the spec: the file that declares the status constants is not among the
  sources. The spec calls the status of the cancellation path the fixed gateway-timeout
  status and the repository's documentation gives \<^verbatim>\<open>StatusNotFound\<close> as 404; both are the
  standard HTTP codes.
\<close>

definition StatusNotFound :: int where
  "StatusNotFound = 404"

definition StatusGatewayTimeout :: int where
  "StatusGatewayTimeout = 504"

section \<open>Path splitting and the route matcher\<close>

text \<open>
  Go strings are byte sequences, here \<^typ>\<open>string\<close>. \<^verbatim>\<open>strings.Trim(p, cutset)\<close> drops
  every leading and every trailing byte that occurs in the cutset; \<^verbatim>\<open>strings.Split\<close> is
  needed for a one-byte separator only and yields one more piece than there are separators.
\<close>

definition strings_Trim :: "string \<Rightarrow> string \<Rightarrow> string" where
  "strings_Trim s cutset =
     rev (dropWhile (\<lambda>c. c \<in> set cutset) (rev (dropWhile (\<lambda>c. c \<in> set cutset) s)))"

fun strings_Split :: "string \<Rightarrow> char \<Rightarrow> string list" where
  "strings_Split [] sep = [[]]"
| "strings_Split (c # cs) sep =
     (if c = sep then [] # strings_Split cs sep
      else (case strings_Split cs sep of
              [] \<Rightarrow> [[c]]
            | piece # pieces \<Rightarrow> (c # piece) # pieces))"

definition strings_HasPrefix :: "string \<Rightarrow> string \<Rightarrow> bool" where
  "strings_HasPrefix s pre = (take (length pre) s = pre)"

definition splitPath :: "string \<Rightarrow> string list" where
  "splitPath p =
     (let p' = strings_Trim p ''/''
      in if p' = [] then [] else strings_Split p' CHR ''/'')"

section \<open>Request context, handlers and the application\<close>

text \<open>
  Of the inbound request the dispatch core reads the method, the path and whether the
  request's own cancellation scope is already over.
\<close>

record Request =
  Method :: string
  URL_Path :: string
  Context_Done :: bool

text \<open>
  \<open>Ctx_Done\<close> says whether the channel \<^verbatim>\<open>ctx.Ctx.Done()\<close> is closed, which is all the
  dispatch core asks of the derived, deadline-bounded scope. \<open>outside\<close> is the memory beyond
  the context that handler closures read and write (the slices and flags the test suite
  captures, the private key-value store, the application): a handler is a state
  transformer on the whole.
\<close>

record 'w Context =
  Writer :: ResponseWriter
  Request :: Request
  Params :: "string \<rightharpoonup> string"
  Stopped :: bool
  Ctx_Done :: bool
  outside :: 'w

text \<open>
  \<^verbatim>\<open>type NextFunc func()\<close> and \<^verbatim>\<open>type HandlerFunc func(*Context, NextFunc)\<close>: the context
  is mutated in place, so a call is a function from the state before to the state after.
  A handler that lets the deadline pass while it runs returns a state with \<open>Ctx_Done\<close> set.
  Handlers are assumed to return (a panic is outside the dispatch core).
\<close>

type_synonym 'w NextFunc = "'w Context \<Rightarrow> 'w Context"
type_synonym 'w HandlerFunc = "'w Context \<Rightarrow> 'w NextFunc \<Rightarrow> 'w Context"

definition Stop :: "'w Context \<Rightarrow> 'w Context" where
  "Stop c = c\<lparr>Stopped := True\<rparr>"

text \<open>
  For dispatch the memory beyond the context has one part with a name: the first spare
  slot of the array behind the application's middleware slice, which \<^verbatim>\<open>append\<close> in
  \<^verbatim>\<open>ServeHTTP\<close> writes and which all dispatches on the application share. The slot holds a
  func value. A state cannot hold a function on states, so \<open>spare\<close> records whose handler
  the slot holds: the method and path of the request whose dispatch appended it, the
  route table being fixed while requests are served; \<open>None\<close> is the slot never written.
  \<open>mem\<close> is the rest of the memory. A unit during whose run another dispatch on the
  application appends its handler returns a state with \<open>spare\<close> overwritten.
\<close>

record 'w heap =
  spare :: "(string \<times> string) option"
  mem :: 'w

text \<open>A route's handler is a Go func value and may be \<^verbatim>\<open>nil\<close>: \<open>None\<close>.\<close>

record 'w route =
  pattern :: string
  handler :: "'w HandlerFunc option"

record 'w Router =
  routes :: "string \<rightharpoonup> 'w route list"

text \<open>
  The inner loop of \<^verbatim>\<open>matchRoute\<close> over the pattern's segments, with the parameter map
  built so far; \<open>None\<close> is \<^verbatim>\<open>match = false\<close>. The loop runs only behind the check that both
  lists are equally long, so the path never runs out first.
\<close>

fun matchRoute_segments ::
  "string list \<Rightarrow> string list \<Rightarrow> (string \<rightharpoonup> string) \<Rightarrow> (string \<rightharpoonup> string) option" where
  "matchRoute_segments [] pathParts params = Some params"
| "matchRoute_segments (pp # patternParts) [] params = None"
| "matchRoute_segments (pp # patternParts) (rp # pathParts) params =
     (if strings_HasPrefix pp '':'' then
        matchRoute_segments patternParts pathParts (params(drop 1 pp \<mapsto> rp))
      else if pp \<noteq> rp then None
      else matchRoute_segments patternParts pathParts params)"

text \<open>The body of the outer loop for one route: \<open>None\<close> is \<^verbatim>\<open>continue\<close>.\<close>

definition matchRoute_route :: "string \<Rightarrow> string \<Rightarrow> (string \<rightharpoonup> string) option" where
  "matchRoute_route pat path =
     (let patternParts = splitPath pat; pathParts = splitPath path
      in if length patternParts \<noteq> length pathParts then None
         else matchRoute_segments patternParts pathParts Map.empty)"

text \<open>
  The outer loop over the routes of the method, in slice order. The result \<^verbatim>\<open>nil, nil\<close> is
  \<open>(None, Map.empty)\<close>: a nil map reads as the empty map.
\<close>

fun matchRoute_loop ::
  "'w route list \<Rightarrow> string \<Rightarrow> 'w HandlerFunc option \<times> (string \<rightharpoonup> string)" where
  "matchRoute_loop [] path = (None, Map.empty)"
| "matchRoute_loop (rt # rest) path =
     (case matchRoute_route (pattern rt) path of
        None \<Rightarrow> matchRoute_loop rest path
      | Some params \<Rightarrow> (handler rt, params))"

text \<open>Indexing the map with an absent method gives the nil slice, which has no elements.\<close>

definition routes_of :: "'w Router \<Rightarrow> string \<Rightarrow> 'w route list" where
  "routes_of r method = (case routes r method of None \<Rightarrow> [] | Some rs \<Rightarrow> rs)"

definition matchRoute ::
  "'w Router \<Rightarrow> string \<Rightarrow> string \<Rightarrow> 'w HandlerFunc option \<times> (string \<rightharpoonup> string)" where
  "matchRoute r method path = matchRoute_loop (routes_of r method) path"

section \<open>The application: registration and dispatch\<close>

text \<open>
  The slice \<^verbatim>\<open>middleware\<close> is its elements and its capacity, \<^verbatim>\<open>cap(a.middleware)\<close>, which
  decides whether an \<^verbatim>\<open>append\<close> writes in place or copies.
\<close>

record 'w App =
  router :: "'w Router"
  middleware :: "'w HandlerFunc list"
  middleware_cap :: nat
  NotFoundHandler :: "'w HandlerFunc option"

text \<open>
  The default handler that \<^verbatim>\<open>New\<close> installs. The error that \<^verbatim>\<open>Write\<close> may hand back is
  logged only.
\<close>

definition defaultNotFound :: "'w HandlerFunc" where
  "defaultNotFound c next =
     c\<lparr>Writer := Write (WriteHeader (Writer c) StatusNotFound) ''404 Not Found''\<rparr>"

text \<open>\<^verbatim>\<open>New\<close> leaves \<^verbatim>\<open>middleware\<close> the nil slice, of capacity 0.\<close>

definition New :: "'w App" where
  "New = \<lparr>router = \<lparr>routes = Map.empty\<rparr>, middleware = [], middleware_cap = 0,
          NotFoundHandler = Some defaultNotFound\<rparr>"

text \<open>
  The capacity that the Go runtime gives the new array when \<^verbatim>\<open>append\<close> adds one func value
  to a full slice of \<open>n\<close>: 1 for the empty slice, twice the length otherwise. This is the
  runtime's rule for slices of fewer than 256 elements; longer ones grow more slowly, and
  registrations are few. What is proved about dispatch holds for every capacity.
\<close>

definition grow_cap :: "nat \<Rightarrow> nat" where
  "grow_cap n = (if n = 0 then 1 else 2 * n)"

text \<open>\<^verbatim>\<open>a.middleware = append(a.middleware, mw)\<close>: in place while there is spare capacity.\<close>

definition Use :: "'w App \<Rightarrow> 'w HandlerFunc \<Rightarrow> 'w App" where
  "Use a mw =
     a\<lparr>middleware := middleware a @ [mw],
       middleware_cap := (if length (middleware a) < middleware_cap a then middleware_cap a
                          else grow_cap (length (middleware a)))\<rparr>"

definition addRoute :: "'w App \<Rightarrow> string \<Rightarrow> string \<Rightarrow> 'w HandlerFunc option \<Rightarrow> 'w App" where
  "addRoute a method path h =
     a\<lparr>router := \<lparr>routes = (routes (router a))
         (method \<mapsto> routes_of (router a) method @ [\<lparr>pattern = path, handler = h\<rparr>])\<rparr>\<rparr>"

definition GET :: "'w App \<Rightarrow> string \<Rightarrow> 'w HandlerFunc option \<Rightarrow> 'w App" where
  "GET a path h = addRoute a ''GET'' path h"

definition POST :: "'w App \<Rightarrow> string \<Rightarrow> 'w HandlerFunc option \<Rightarrow> 'w App" where
  "POST a path h = addRoute a ''POST'' path h"

definition PUT :: "'w App \<Rightarrow> string \<Rightarrow> 'w HandlerFunc option \<Rightarrow> 'w App" where
  "PUT a path h = addRoute a ''PUT'' path h"

definition DELETE :: "'w App \<Rightarrow> string \<Rightarrow> 'w HandlerFunc option \<Rightarrow> 'w App" where
  "DELETE a path h = addRoute a ''DELETE'' path h"

definition SetNotFoundHandler :: "'w App \<Rightarrow> 'w HandlerFunc option \<Rightarrow> 'w App" where
  "SetNotFoundHandler a h = a\<lparr>NotFoundHandler := h\<rparr>"

text \<open>
  The closure \<^verbatim>\<open>exec\<close> of \<^verbatim>\<open>ServeHTTP\<close>: the \<^verbatim>\<open>select\<close> on the Done channel first, then
  the bounds check and the stopped flag, then the call of unit \<open>i\<close> with the continuation
  \<^verbatim>\<open>func() { exec(i + 1) }\<close>.
\<close>

function exec :: "'w HandlerFunc list \<Rightarrow> nat \<Rightarrow> 'w Context \<Rightarrow> 'w Context" where
  "exec mws i c =
     (if Ctx_Done c then c\<lparr>Writer := WriteHeader (Writer c) StatusGatewayTimeout\<rparr>
      else if i < length mws \<and> \<not> Stopped c then (mws ! i) c (\<lambda>c'. exec mws (i + 1) c')
      else c)"
  by pat_completeness auto
termination
  by (relation "measure (\<lambda>(mws, i, c). length mws - i)") auto

text \<open>
  \<^verbatim>\<open>http.NotFound(w, r)\<close> of the standard library writes status 404 and the line
  \<^verbatim>\<open>404 page not found\<close> to the transport's writer directly, past the wrapper.
\<close>

definition http_NotFound :: "transport_call list \<Rightarrow> transport_call list" where
  "http_NotFound w = w @ [WriteHeaderCall 404, WriteCall (''404 page not found'' @ [CHR 0x0A])]"

text \<open>
  The call of the chain's last element when \<^verbatim>\<open>append\<close> has written the handler in place:
  the unit is read from the shared spare slot at the moment the step is reached, so it is
  the handler of whichever dispatch appended last. A slot that holds no handler is never
  reached this way, since every dispatch writes the slot before it runs its chain and
  writes handlers that the matcher returned only; the model lets that step do nothing.
\<close>

definition spare_slot_call :: "'w heap Router \<Rightarrow> 'w heap HandlerFunc" where
  "spare_slot_call rt c next =
     (case spare (outside c) of
        None \<Rightarrow> c
      | Some (method, path) \<Rightarrow>
          (case fst (matchRoute rt method path) of
             None \<Rightarrow> c
           | Some h \<Rightarrow> h c next))"

text \<open>
  \<^verbatim>\<open>ServeHTTP\<close>. The derived scope \<^verbatim>\<open>ctxWithTimeout\<close> is done at once when the request's
  own scope is; the context's copy of the request differs from the inbound one in that
  scope only, which \<open>Ctx_Done\<close> tracks. \<^verbatim>\<open>mws := append(a.middleware, handler)\<close> copies the
  units into a new array when the slice is full, and the chain is then the dispatch's own;
  with spare capacity it writes the handler into the shared spare slot, and the chain ends
  in that slot. The result is the context when dispatch returns; it holds the writer and,
  in it, what reached the transport.
\<close>

definition ServeHTTP ::
  "'w heap App \<Rightarrow> transport_call list \<Rightarrow> Request \<Rightarrow> 'w heap \<Rightarrow> 'w heap Context" where
  "ServeHTTP a w r out =
     (let ctx = \<lparr>Writer = NewResponseWriter w, Request = r, Params = Map.empty,
                 Stopped = False, Ctx_Done = Context_Done r, outside = out\<rparr>
      in case matchRoute (router a) (Method r) (URL_Path r) of
           (None, params) \<Rightarrow>
             (case NotFoundHandler a of
                Some nf \<Rightarrow> nf ctx (\<lambda>c. c)
              | None \<Rightarrow> ctx\<lparr>Writer := (Writer ctx)\<lparr>embedded := http_NotFound w\<rparr>\<rparr>)
         | (Some h, params) \<Rightarrow>
             (if length (middleware a) < middleware_cap a
              then exec (middleware a @ [spare_slot_call (router a)]) 0
                     (ctx\<lparr>Params := params,
                          outside := out\<lparr>spare := Some (Method r, URL_Path r)\<rparr>\<rparr>)
              else exec (middleware a @ [h]) 0 (ctx\<lparr>Params := params\<rparr>)))"

section \<open>Auxiliary notions for stating the properties\<close>

text \<open>
  The matcher in the words of the specification, to compare \<^verbatim>\<open>matchRoute\<close> with: a pattern
  segment accepts a request segment when it begins with the parameter marker or equals it
  byte for byte, and the bindings of a pattern are its marker segments, each with the
  marker's remaining text as key and the request segment as value, in path order.
\<close>

definition spec_segment_ok :: "string \<Rightarrow> string \<Rightarrow> bool" where
  "spec_segment_ok pp rp = (strings_HasPrefix pp '':'' \<or> pp = rp)"

definition spec_bindings :: "string list \<Rightarrow> string list \<Rightarrow> (string \<times> string) list" where
  "spec_bindings pat req =
     map (\<lambda>(pp, rp). (drop 1 pp, rp))
       (filter (\<lambda>(pp, rp). strings_HasPrefix pp '':'') (zip pat req))"

text \<open>
  A unit that works, invokes its continuation exactly once and works again: \<open>pre\<close> is the
  work before the call, \<open>post\<close> the work after it, which may depend on the state the unit
  was entered with (its local variables). \<open>nested\<close> is the onion such units form around
  an innermost step \<open>k\<close>, which it applies exactly once.
\<close>

definition around ::
  "('w Context \<Rightarrow> 'w Context) \<Rightarrow> ('w Context \<Rightarrow> 'w Context \<Rightarrow> 'w Context) \<Rightarrow> 'w HandlerFunc" where
  "around pre post c next = post c (next (pre c))"



definition keep :: "'w Context \<Rightarrow> 'w Context \<Rightarrow> 'w Context" where
  "keep entry c = c"

text \<open>
  Units of the kind the repository's tests register: recording a marker in a captured
  slice before and after the continuation, a handler recording its own marker, a handler
  counting its runs, a unit that returns without its continuation, one that invokes it
  twice, and one that stops the chain and invokes it all the same. Then the handler of a
  second route, recording \<^verbatim>\<open>B\<close>, a unit that continues after another dispatch, for the
  given method and path, has appended its handler meanwhile, and a unit that itself serves
  a request on the application, with a recorder of its own as transport, before it
  continues.
\<close>

definition mark :: "string \<Rightarrow> string list heap Context \<Rightarrow> string list heap Context" where
  "mark m c = c\<lparr>outside := (outside c)\<lparr>mem := mem (outside c) @ [m]\<rparr>\<rparr>"

definition marking_mw :: "string \<Rightarrow> string list heap HandlerFunc" where
  "marking_mw name c next = mark (name @ ''-after'') (next (mark (name @ ''-before'') c))"

definition marking_handler :: "string list heap HandlerFunc" where
  "marking_handler c next = mark ''H'' c"


definition skip_mw :: "'w HandlerFunc" where
  "skip_mw c next = c"


definition stop_mw :: "'w HandlerFunc" where
  "stop_mw c next = next (Stop c)"

definition other_handler :: "string list heap HandlerFunc" where
  "other_handler c next = mark ''B'' c"

definition overlapped_mw :: "string \<Rightarrow> string \<Rightarrow> 'w heap HandlerFunc" where
  "overlapped_mw method path c next =
     next (c\<lparr>outside := (outside c)\<lparr>spare := Some (method, path)\<rparr>\<rparr>)"

definition reentrant_mw :: "'w heap App \<Rightarrow> Request \<Rightarrow> 'w heap HandlerFunc" where
  "reentrant_mw a r c next = next (c\<lparr>outside := outside (ServeHTTP a [] r (outside c))\<rparr>)"

text \<open>Requests for \<^verbatim>\<open>GET\<close> of a path, with the cancellation scope already over or not.\<close>

definition expired_get :: "string \<Rightarrow> Request" where
  "expired_get path = \<lparr>Method = ''GET'', URL_Path = path, Context_Done = True\<rparr>"

definition live_get :: "string \<Rightarrow> Request" where
  "live_get path = \<lparr>Method = ''GET'', URL_Path = path, Context_Done = False\<rparr>"

text \<open>
  The memory with nothing recorded and the spare slot never written, and the context as
  \<^verbatim>\<open>ServeHTTP\<close> builds it for \<open>live_get ''/x''\<close> on that memory.
\<close>

definition no_marks :: "string list heap" where
  "no_marks = \<lparr>spare = None, mem = []\<rparr>"


definition fresh_ctx :: "string list heap Context" where
  "fresh_ctx = \<lparr>Writer = NewResponseWriter [], Request = live_get ''/x'', Params = Map.empty,
     Stopped = False, Ctx_Done = False, outside = no_marks\<rparr>"

section \<open>Properties of the output sink\<close>

lemma Written_sink_step: "Written (sink_step w op)"
  by (cases op) (simp_all add: Written_def WriteHeader_def Write_def)

lemma Written_sink_run: "Written w \<Longrightarrow> Written (sink_run w ops)"
  unfolding sink_run_def
  by (induction ops arbitrary: w) (simp_all add: Written_sink_step)

lemma Status_Write: "Status (Write w b) = Status w"
  by (simp add: Status_def Write_def)

lemma Status_body_writes: "Status (sink_run w (map OpWrite bs)) = Status w"
  unfolding sink_run_def
  by (induction bs arbitrary: w) (simp_all add: Status_Write)

lemma sink_run_append: "sink_run w (xs @ ys) = sink_run (sink_run w xs) ys"
  by (simp add: sink_run_def)

lemma sink_run_Cons: "sink_run w (x # xs) = sink_run (sink_step w x) xs"
  by (simp add: sink_run_def)

text \<open>
  Claim C9. A fresh sink reports \<open>Written\<close> as false; after the first call, be it
  \<^verbatim>\<open>WriteHeader\<close> or \<^verbatim>\<open>Write\<close>, it reports true, and so it does after every further
  sequence of calls, from whatever state the first call was made.
\<close>

theorem written_stays_true:
  "\<not> Written (NewResponseWriter w)
   \<and> Written (sink_run (NewResponseWriter w) (op # ops))
   \<and> Written (sink_run (sink_step w' op) ops)"
  by (simp add: sink_run_Cons Written_sink_run Written_sink_step)
     (simp add: Written_def NewResponseWriter_def)

text \<open>
  Claim C2, as stated, fails: a second status-setting call replaces the status that the
  first one latched. After \<^verbatim>\<open>WriteHeader(200)\<close> and \<^verbatim>\<open>WriteHeader(500)\<close> on a fresh sink
  \<open>Status\<close> is 500.
\<close>

theorem status_overwritten_counterexample:
  "Status (sink_run (WriteHeader (NewResponseWriter []) 200) [OpWriteHeader 500]) \<noteq> 200"
  by (simp add: sink_run_def Status_def WriteHeader_def NewResponseWriter_def)

text \<open>
  Claim C2, amended. The first status-setting call latches \<open>written\<close>, which no later call
  undoes, and the status, which body writes leave alone; the status reported is the one of
  the latest status-setting call, whatever came before it.
\<close>

theorem status_is_last_set:
  "Written (sink_run (WriteHeader (NewResponseWriter w) code) ops)
   \<and> Status (sink_run (WriteHeader (NewResponseWriter w) code) (map OpWrite bs)) = code
   \<and> Status (sink_run w' (ops @ OpWriteHeader code' # map OpWrite bs)) = code'"
proof -
  have "Written (WriteHeader (NewResponseWriter w) code)"
    by (simp add: Written_def WriteHeader_def)
  moreover have "Status (WriteHeader v k) = k" for v k
    by (simp add: Status_def WriteHeader_def)
  ultimately show ?thesis
    by (simp add: Written_sink_run Status_body_writes sink_run_append sink_run_Cons)
qed

section \<open>Properties of the route matcher\<close>

lemmas eval_route = matchRoute_route_def splitPath_def strings_Trim_def strings_HasPrefix_def

lemmas eval_register =
  matchRoute_def GET_def addRoute_def Use_def New_def routes_of_def grow_cap_def

lemma matchRoute_segments_acc:
  "length pat = length req \<Longrightarrow>
   matchRoute_segments pat req acc =
     (if list_all2 spec_segment_ok pat req
      then Some (acc ++ map_of (rev (spec_bindings pat req))) else None)"
proof (induction pat req arbitrary: acc rule: list_induct2)
  case Nil
  show ?case by (simp add: spec_bindings_def)
next
  case (Cons pp pat rp req)
  show ?case
  proof (cases "strings_HasPrefix pp '':''")
    case True
    then have "spec_bindings (pp # pat) (rp # req) = (drop 1 pp, rp) # spec_bindings pat req"
      by (simp add: spec_bindings_def)
    then have "acc ++ map_of (rev (spec_bindings (pp # pat) (rp # req)))
        = acc(drop 1 pp \<mapsto> rp) ++ map_of (rev (spec_bindings pat req))"
      by (simp add: map_of_append)
    with True show ?thesis
      by (simp add: Cons.IH spec_segment_ok_def)
  next
    case False
    then have "spec_bindings (pp # pat) (rp # req) = spec_bindings pat req"
      by (simp add: spec_bindings_def)
    with False show ?thesis
      by (auto simp: Cons.IH spec_segment_ok_def)
  qed
qed

lemma matchRoute_route_spec:
  "matchRoute_route pat path =
     (if list_all2 spec_segment_ok (splitPath pat) (splitPath path)
      then Some (map_of (rev (spec_bindings (splitPath pat) (splitPath path)))) else None)"
proof (cases "length (splitPath pat) = length (splitPath path)")
  case True
  then show ?thesis
    by (simp add: matchRoute_route_def matchRoute_segments_acc)
next
  case False
  then have "\<not> list_all2 spec_segment_ok (splitPath pat) (splitPath path)"
    by (auto dest: list_all2_lengthD)
  with False show ?thesis
    by (simp add: matchRoute_route_def)
qed

text \<open>
  Claim C4. When pattern and path have equally many segments, the route matches exactly
  when every pattern segment either begins with the marker \<^verbatim>\<open>:\<close> or equals the request
  segment at its position, and the parameters are then the request segments at the marker
  positions, keyed by the text after the marker (a later binding of a key replacing an
  earlier one). So \<^verbatim>\<open>/users/:id\<close> matches \<^verbatim>\<open>/users/42\<close> with \<^verbatim>\<open>id = "42"\<close>, and matches
  neither \<^verbatim>\<open>/users/42/extra\<close> nor \<^verbatim>\<open>/orders/42\<close>.
\<close>

theorem matcher_binds_and_rejects:
  "(length (splitPath pat) = length (splitPath path) \<longrightarrow>
      matchRoute_route pat path =
        (if list_all2 spec_segment_ok (splitPath pat) (splitPath path)
         then Some (map_of (rev (spec_bindings (splitPath pat) (splitPath path)))) else None))
   \<and> matchRoute (router (GET New ''/users/:id'' h)) ''GET'' ''/users/42'' = (h, [''id'' \<mapsto> ''42''])
   \<and> matchRoute (router (GET New ''/users/:id'' h)) ''GET'' ''/users/42/extra'' = (None, Map.empty)
   \<and> matchRoute (router (GET New ''/users/:id'' h)) ''GET'' ''/orders/42'' = (None, Map.empty)"
  by (simp add: matchRoute_route_spec) (simp add: eval_register eval_route)

theorem matcher_binds_and_rejects_witness:
  "length (splitPath ''/a/:k/:k'') = length (splitPath ''/a/1/2'')
   \<and> matchRoute_route ''/a/:k/:k'' ''/a/1/2'' = Some [''k'' \<mapsto> ''2'']
   \<and> list_all2 spec_segment_ok (splitPath ''/a/:k/:k'') (splitPath ''/a/1/2'')
   \<and> spec_bindings (splitPath ''/a/:k/:k'') (splitPath ''/a/1/2'') = [(''k'', ''1''), (''k'', ''2'')]"
proof -
  have "length (splitPath ''/a/:k/:k'') = length (splitPath ''/a/1/2'')"
    and "list_all2 spec_segment_ok (splitPath ''/a/:k/:k'') (splitPath ''/a/1/2'')"
    and "spec_bindings (splitPath ''/a/:k/:k'') (splitPath ''/a/1/2'') = [(''k'', ''1''), (''k'', ''2'')]"
    by (simp_all add: eval_route spec_segment_ok_def spec_bindings_def)
  with matcher_binds_and_rejects [of "''/a/:k/:k''" "''/a/1/2''" "None :: unit HandlerFunc option"]
  show ?thesis
    by simp
qed

text \<open>
  Claim C6. The routes of a method are tried in the order of the slice, to which
  registration appends: when no route before \<open>rt\<close> matches the path and \<open>rt\<close> does, the
  matcher returns the handler of \<open>rt\<close> and the parameters of that match, whatever comes
  after. With \<^verbatim>\<open>/a/:x\<close> registered before \<^verbatim>\<open>/a/b\<close>, a request for \<^verbatim>\<open>/a/b\<close> goes to the
  former.
\<close>

theorem first_match_wins:
  assumes "routes_of r method = before @ rt # after"
    and "\<forall>x\<in>set before. matchRoute_route (pattern x) path = None"
    and "matchRoute_route (pattern rt) path = Some params"
  shows "matchRoute r method path = (handler rt, params)"
proof -
  have "matchRoute_loop (before @ rt # after) path = (handler rt, params)"
    using assms(2) by (induction before) (simp_all add: assms(3))
  then show ?thesis by (simp add: matchRoute_def assms(1))
qed

theorem first_match_wins_witness:
  "matchRoute (router (GET (GET New ''/a/:x'' (Some marking_handler)) ''/a/b'' (Some skip_mw)))
       ''GET'' ''/a/b''
     = (Some marking_handler, [''x'' \<mapsto> ''b''])
   \<and> matchRoute_route ''/a/b'' ''/a/b'' = Some Map.empty"
  using first_match_wins [of "router (GET (GET New ''/a/:x'' (Some marking_handler)) ''/a/b'' (Some skip_mw))"
      "''GET''" "[]" "\<lparr>pattern = ''/a/:x'', handler = Some marking_handler\<rparr>"
      "[\<lparr>pattern = ''/a/b'', handler = Some skip_mw\<rparr>]" "''/a/b''" "[''x'' \<mapsto> ''b'']"]
  by (simp add: GET_def addRoute_def New_def routes_of_def eval_route)

lemma Trim_append_sep: "strings_Trim (p @ ''/'') ''/'' = strings_Trim p ''/''"
proof -
  define P where "P = (\<lambda>c. c \<in> set ''/'')"
  have P: "P c \<longleftrightarrow> c = CHR ''/''" for c
    by (simp add: P_def)
  have "rev (dropWhile P (rev (dropWhile P (p @ ''/'')))) = rev (dropWhile P (rev (dropWhile P p)))"
  proof (cases "\<forall>c\<in>set p. P c")
    case True
    then have "dropWhile P (p @ ''/'') = []" and "dropWhile P p = []"
      by (simp_all add: dropWhile_eq_Nil_conv P)
    then show ?thesis by (simp only:)
  next
    case False
    then have "dropWhile P (p @ ''/'') = dropWhile P p @ ''/''"
      by (auto simp: dropWhile_append1)
    then show ?thesis by (simp add: P)
  qed
  then show ?thesis
    by (simp only: strings_Trim_def P_def)
qed

text \<open>
  Claim C7, as stated, fails: \<^verbatim>\<open>splitPath\<close> trims the separators at both ends before it
  splits, so \<^verbatim>\<open>/users/42/\<close> has the segments of \<^verbatim>\<open>/users/42\<close> and is matched by
  \<^verbatim>\<open>/users/:id\<close> with the same parameter.
\<close>

theorem trailing_slash_counterexample:
  "matchRoute_route ''/users/:id'' ''/users/42'' = Some [''id'' \<mapsto> ''42'']
   \<and> matchRoute_route ''/users/:id'' ''/users/42/'' = Some [''id'' \<mapsto> ''42'']"
  by (simp add: eval_route)

text \<open>
  Claim C7, amended. A path and the same path with a separator appended have the same
  segments, and the matcher gives the same result for both, under every route table and
  method.
\<close>

theorem trailing_slash_ignored:
  "splitPath (path @ ''/'') = splitPath path
   \<and> matchRoute r method (path @ ''/'') = matchRoute r method path"
proof -
  have s: "splitPath (q @ ''/'') = splitPath q" for q
    by (simp add: splitPath_def Trim_append_sep)
  have "matchRoute_route pat (path @ ''/'') = matchRoute_route pat path" for pat
    by (simp add: matchRoute_route_def s)
  then have "matchRoute_loop rs (path @ ''/'') = matchRoute_loop rs path" for rs :: "'a route list"
    by (induction rs) (simp_all split: option.splits)
  then show ?thesis by (simp add: matchRoute_def s)
qed

section \<open>Properties of the chain executor and of dispatch\<close>

declare exec.simps [simp del]

lemma exec_Cons: "exec (m # ms) (Suc i) c = exec ms i c"
proof (induction "length ms - i" arbitrary: i c)
  case 0
  then show ?case
    by (simp add: exec.simps [of "m # ms" "Suc i" c] exec.simps [of ms i c])
next
  case (Suc n)
  then have "n = length ms - Suc i" by simp
  then have "\<And>c'. exec (m # ms) (Suc (Suc i)) c' = exec ms (Suc i) c'"
    using Suc.hyps(1) by blast
  then have "(\<lambda>c'. exec (m # ms) (Suc (Suc i)) c') = (\<lambda>c'. exec ms (Suc i) c')"
    by simp
  then show ?case
    by (simp add: exec.simps [of "m # ms" "Suc i" c] exec.simps [of ms i c])
qed

lemma exec_head:
  "exec (m # ms) 0 c =
     (if Ctx_Done c then c\<lparr>Writer := WriteHeader (Writer c) StatusGatewayTimeout\<rparr>
      else if \<not> Stopped c then m c (exec ms 0) else c)"
proof -
  have "(\<lambda>c'. exec (m # ms) (Suc 0) c') = exec ms 0"
    by (rule ext) (rule exec_Cons)
  then show ?thesis
    by (simp add: exec.simps [of "m # ms" 0 c])
qed

lemma exec_Nil:
  "exec [] i c =
     (if Ctx_Done c then c\<lparr>Writer := WriteHeader (Writer c) StatusGatewayTimeout\<rparr> else c)"
  by (simp add: exec.simps [of "[]" i c])


lemma exec_Done:
  "Ctx_Done c \<Longrightarrow> exec mws i c = c\<lparr>Writer := WriteHeader (Writer c) StatusGatewayTimeout\<rparr>"
  by (simp add: exec.simps [of mws i c])

lemmas eval_app = ServeHTTP_def eval_register eval_route exec_head exec_Nil spare_slot_call_def

text \<open>
  With three units registered the middleware slice has length 3 and capacity 4, so
  dispatch appends in place. When another dispatch, here for \<^verbatim>\<open>/b\<close>, appends its handler
  while the second unit of the chain for \<^verbatim>\<open>/a\<close> runs, that chain ends in the handler of
  \<^verbatim>\<open>/b\<close>: the handler of \<^verbatim>\<open>/a\<close> never records its marker.
\<close>

lemma overlapped_dispatch_takes_slot:
  "middleware_cap (Use (Use (Use New (marking_mw ''M1'')) (overlapped_mw ''GET'' ''/b''))
      (marking_mw ''M3'')) = 4
   \<and> mem (outside (ServeHTTP
        (GET (GET (Use (Use (Use New (marking_mw ''M1'')) (overlapped_mw ''GET'' ''/b''))
           (marking_mw ''M3'')) ''/a'' (Some marking_handler)) ''/b'' (Some other_handler))
        [] (live_get ''/a'') no_marks))
     = [''M1-before'', ''M3-before'', ''B'', ''M3-after'', ''M1-after'']"
  by (simp add: eval_app live_get_def no_marks_def marking_mw_def overlapped_mw_def
      other_handler_def mark_def)

text \<open>
  The same with the other dispatch made by the second unit itself, which serves \<^verbatim>\<open>/b\<close> on
  the application before it continues (when entered again by that dispatch the unit just
  continues, which the inner application stands for): the inner dispatch runs the handler
  of \<^verbatim>\<open>/b\<close>, and so does the chain for \<^verbatim>\<open>/a\<close> afterwards. With two units, on a full
  slice, the chain for \<^verbatim>\<open>/a\<close> is its own and ends in the handler of \<^verbatim>\<open>/a\<close>.
\<close>

lemma reentrant_dispatch_takes_slot:
  "mem (outside (ServeHTTP
        (GET (GET (Use (Use (Use New (marking_mw ''M1''))
           (reentrant_mw
              (GET (GET (Use (Use (Use New (marking_mw ''M1'')) (around id keep))
                 (marking_mw ''M3'')) ''/a'' (Some marking_handler)) ''/b'' (Some other_handler))
              (live_get ''/b'')))
           (marking_mw ''M3'')) ''/a'' (Some marking_handler)) ''/b'' (Some other_handler))
        [] (live_get ''/a'') no_marks))
     = [''M1-before'',
        ''M1-before'', ''M3-before'', ''B'', ''M3-after'', ''M1-after'',
        ''M3-before'', ''B'', ''M3-after'', ''M1-after'']
   \<and> mem (outside (ServeHTTP
        (GET (GET (Use (Use New
           (reentrant_mw
              (GET (GET (Use (Use New (around id keep))
                 (marking_mw ''M3'')) ''/a'' (Some marking_handler)) ''/b'' (Some other_handler))
              (live_get ''/b'')))
           (marking_mw ''M3'')) ''/a'' (Some marking_handler)) ''/b'' (Some other_handler))
        [] (live_get ''/a'') no_marks))
     = [''M3-before'', ''B'', ''M3-after'', ''M3-before'', ''H'', ''M3-after'']"
  by (simp add: eval_app live_get_def no_marks_def marking_mw_def reentrant_mw_def around_def
      keep_def marking_handler_def other_handler_def mark_def)

text \<open>
  Claim C1, as stated, fails for a request that matches no route: the not-found path of
  \<^verbatim>\<open>ServeHTTP\<close> never consults the cancellation signal. For a request whose scope is
  already over and whose path is not registered, the default not-found handler runs and
  the status committed is 404.
\<close>

theorem cancelled_not_found_counterexample:
  "Status (Writer (ServeHTTP (GET (Use New (marking_mw ''M1'')) ''/x'' (Some marking_handler)) []
      (expired_get ''/missing'') no_marks)) = 404
   \<and> embedded (Writer (ServeHTTP (GET (Use New (marking_mw ''M1'')) ''/x'' (Some marking_handler)) []
      (expired_get ''/missing'') no_marks)) = [WriteHeaderCall 404, WriteCall ''404 Not Found'']"
  by (simp add: eval_app expired_get_def defaultNotFound_def Status_def
      WriteHeader_def Write_def NewResponseWriter_def StatusNotFound_def)

text \<open>
  Claim C1, amended. A chain step that starts with the cancellation signal triggered
  returns the context with the gateway-timeout status written and nothing else changed,
  whatever the units of the chain are: it invokes none of them. A request that matches a
  route and whose scope is already over at dispatch ends with status 504 committed, that
  one call on the transport, and the memory outside the context as it was but for the
  spare slot of the middleware slice, where \<^verbatim>\<open>append\<close> has put the handler if the slice
  has spare capacity: no middleware and no handler has run.
\<close>

theorem cancelled_step_aborts:
  "(Ctx_Done c \<longrightarrow>
      exec mws i c = c\<lparr>Writer := WriteHeader (Writer c) StatusGatewayTimeout\<rparr>)
   \<and> (Context_Done r \<and> matchRoute (router a) (Method r) (URL_Path r) = (Some h, params) \<longrightarrow>
      ServeHTTP a w r out =
        \<lparr>Writer = \<lparr>embedded = w @ [WriteHeaderCall 504], written = True, status = 504\<rparr>,
         Request = r, Params = params, Stopped = False, Ctx_Done = True,
         outside = (if length (middleware a) < middleware_cap a
                    then out\<lparr>spare := Some (Method r, URL_Path r)\<rparr> else out)\<rparr>)"
  by (simp add: exec_Done ServeHTTP_def NewResponseWriter_def WriteHeader_def
      StatusGatewayTimeout_def)

theorem cancelled_step_aborts_witness:
  "Ctx_Done (fresh_ctx\<lparr>Ctx_Done := True\<rparr>)
   \<and> exec [marking_mw ''M1'', marking_handler] 1 (fresh_ctx\<lparr>Ctx_Done := True\<rparr>)
       = fresh_ctx\<lparr>Ctx_Done := True, Writer := WriteHeader (Writer fresh_ctx) StatusGatewayTimeout\<rparr>
   \<and> Context_Done (expired_get ''/x'')
   \<and> matchRoute (router (GET (Use New (marking_mw ''M1'')) ''/x'' (Some marking_handler)))
         (Method (expired_get ''/x'')) (URL_Path (expired_get ''/x'')) = (Some marking_handler, Map.empty)
   \<and> ServeHTTP (GET (Use New (marking_mw ''M1'')) ''/x'' (Some marking_handler)) []
         (expired_get ''/x'') no_marks =
       \<lparr>Writer = \<lparr>embedded = [WriteHeaderCall 504], written = True, status = 504\<rparr>,
         Request = expired_get ''/x'', Params = Map.empty, Stopped = False, Ctx_Done = True,
         outside = no_marks\<rparr>"
proof -
  let ?a = "GET (Use New (marking_mw ''M1'')) ''/x'' (Some marking_handler)"
  have m: "matchRoute (router ?a) (Method (expired_get ''/x'')) (URL_Path (expired_get ''/x''))
      = (Some marking_handler, Map.empty)"
    by (simp add: eval_register eval_route expired_get_def)
  have d: "Context_Done (expired_get ''/x'')"
    by (simp add: expired_get_def)
  have f: "\<not> length (middleware ?a) < middleware_cap ?a"
    by (simp add: eval_register)
  show ?thesis
    using cancelled_step_aborts [of "fresh_ctx\<lparr>Ctx_Done := True\<rparr>"
        "[marking_mw ''M1'', marking_handler]" 1 "expired_get ''/x''" ?a
        marking_handler Map.empty "[]" no_marks] m d f
    by simp
qed

text \<open>
  Claim C8. A chain step that starts with the stopped flag set invokes no unit, neither a
  later middleware nor the terminal handler: whatever the units of the chain are, it
  returns the context as it is (with the timeout status written when the cancellation
  signal is triggered as well). So a unit that sets the flag and then invokes its
  continuation all the same gets nothing run.
\<close>

theorem stopped_runs_nothing:
  "Stopped c \<Longrightarrow>
   exec mws i c =
     (if Ctx_Done c then c\<lparr>Writer := WriteHeader (Writer c) StatusGatewayTimeout\<rparr> else c)"
  by (simp add: exec.simps [of mws i c])

theorem stopped_runs_nothing_witness:
  "Stopped (Stop fresh_ctx)
   \<and> exec [stop_mw, marking_mw ''M2'', marking_handler] 1 (Stop fresh_ctx) = Stop fresh_ctx
   \<and> exec [stop_mw, marking_mw ''M2'', marking_handler] 0 fresh_ctx = Stop fresh_ctx
   \<and> mem (outside (ServeHTTP
        (GET (Use (Use New stop_mw) (marking_mw ''M2'')) ''/x'' (Some marking_handler))
        [] (live_get ''/x'') no_marks)) = []"
proof -
  have s: "Stopped (Stop fresh_ctx)" and d: "\<not> Ctx_Done (Stop fresh_ctx)"
    by (simp_all add: Stop_def fresh_ctx_def)
  have e: "exec [stop_mw, marking_mw ''M2'', marking_handler] 1 (Stop fresh_ctx) = Stop fresh_ctx"
    using stopped_runs_nothing [OF s, of "[stop_mw, marking_mw ''M2'', marking_handler]" 1] d
    by simp
  have "exec [stop_mw, marking_mw ''M2'', marking_handler] 0 fresh_ctx = Stop fresh_ctx"
    by (simp add: exec_head stop_mw_def Stop_def fresh_ctx_def)
  moreover have "mem (outside (ServeHTTP
      (GET (Use (Use New stop_mw) (marking_mw ''M2'')) ''/x'' (Some marking_handler))
        [] (live_get ''/x'') no_marks)) = []"
    by (simp add: eval_app live_get_def stop_mw_def Stop_def no_marks_def)
  ultimately show ?thesis using s e by simp
qed











text \<open>
  Claim C10. \<^verbatim>\<open>New\<close> installs a not-found handler, and neither \<^verbatim>\<open>Use\<close> nor route
  registration changes it. On an application that still has it, a request that the
  matcher finds no handler for is answered by that handler alone: status 404 and the body
  \<^verbatim>\<open>404 Not Found\<close> go through the wrapper to the transport, so the sink is written and
  the protocol-level fallback is not taken, and nothing outside the context changes,
  whatever global middleware is registered.
\<close>

theorem default_not_found:
  "NotFoundHandler (New :: 'w App) = Some defaultNotFound
   \<and> NotFoundHandler (Use a mw) = NotFoundHandler a
   \<and> NotFoundHandler (addRoute a method pat h) = NotFoundHandler a
   \<and> (NotFoundHandler a = NotFoundHandler (New :: 'w heap App)
       \<and> fst (matchRoute (router a) (Method r) (URL_Path r)) = None \<longrightarrow>
      ServeHTTP a w r out =
        \<lparr>Writer = \<lparr>embedded = w @ [WriteHeaderCall 404, WriteCall ''404 Not Found''],
                    written = True, status = 404\<rparr>,
         Request = r, Params = Map.empty, Stopped = False, Ctx_Done = Context_Done r,
         outside = out\<rparr>)"
proof (intro conjI impI)
  assume A: "NotFoundHandler a = NotFoundHandler (New :: 'w heap App)
       \<and> fst (matchRoute (router a) (Method r) (URL_Path r)) = None"
  then obtain params where "matchRoute (router a) (Method r) (URL_Path r) = (None, params)"
    by (cases "matchRoute (router a) (Method r) (URL_Path r)") simp
  moreover from A have "NotFoundHandler a = Some defaultNotFound"
    by (simp add: New_def)
  ultimately show "ServeHTTP a w r out =
        \<lparr>Writer = \<lparr>embedded = w @ [WriteHeaderCall 404, WriteCall ''404 Not Found''],
                    written = True, status = 404\<rparr>,
         Request = r, Params = Map.empty, Stopped = False, Ctx_Done = Context_Done r,
         outside = out\<rparr>"
    by (simp add: ServeHTTP_def defaultNotFound_def WriteHeader_def Write_def
        NewResponseWriter_def StatusNotFound_def)
qed (simp_all add: New_def Use_def addRoute_def)

theorem default_not_found_witness:
  "NotFoundHandler (GET (Use New (marking_mw ''M1'')) ''/x'' (Some marking_handler))
     = NotFoundHandler (New :: string list heap App)
   \<and> fst (matchRoute (router (GET (Use New (marking_mw ''M1'')) ''/x'' (Some marking_handler)))
       (Method (live_get ''/missing'')) (URL_Path (live_get ''/missing''))) = None
   \<and> ServeHTTP (GET (Use New (marking_mw ''M1'')) ''/x'' (Some marking_handler)) []
       (live_get ''/missing'') no_marks =
        \<lparr>Writer = \<lparr>embedded = [WriteHeaderCall 404, WriteCall ''404 Not Found''],
                    written = True, status = 404\<rparr>,
         Request = live_get ''/missing'', Params = Map.empty, Stopped = False, Ctx_Done = False,
         outside = no_marks\<rparr>"
proof -
  let ?a = "GET (Use New (marking_mw ''M1'')) ''/x'' (Some marking_handler)"
  have n: "NotFoundHandler ?a = NotFoundHandler (New :: string list heap App)"
    by (simp add: eval_register)
  have m: "fst (matchRoute (router ?a) (Method (live_get ''/missing''))
      (URL_Path (live_get ''/missing''))) = None"
    by (simp add: eval_register eval_route live_get_def)
  have d: "Context_Done (live_get ''/missing'') = False"
    by (simp add: live_get_def)
  show ?thesis
    using default_not_found [of ?a "marking_mw ''M1''" "''GET''" "''/x''" None
        "live_get ''/missing''" "[]" no_marks] n m d
    by simp
qed

end
